theory Spec2Isabelle
  imports Complex_Main
begin

section \<open>Shared conventions\<close>

text \<open>
  Python exceptions are values of the type \<open>error\<close>; a function that can raise returns
  \<open>error + 'a\<close> with \<open>Inl\<close> for the exception.  Floating-point columns are read as real
  numbers.  numpy does not raise on a division by zero: it returns \<open>inf\<close> or \<open>nan\<close>.  Such a
  non-finite result is the value \<open>None\<close> of \<open>np_divide\<close>.
\<close>

datatype error =
  KeyError | IndexError | FieldError | NameError | ValueError | FileNotFoundError

definition np_divide :: "real \<Rightarrow> real \<Rightarrow> real option" where
  "np_divide a b = (if b = 0 then None else Some (a / b))"

fun sequence :: "('e + 'a) list \<Rightarrow> 'e + 'a list" where
  "sequence [] = Inr []"
| "sequence (x # xs) =
     (case x of
        Inl e \<Rightarrow> Inl e
      | Inr y \<Rightarrow> (case sequence xs of Inl e \<Rightarrow> Inl e | Inr ys \<Rightarrow> Inr (y # ys)))"

text \<open>\<open>ak.argmin\<close> and \<open>ak.argmax\<close> along the last axis: the first position of the
  extremum, \<open>None\<close> on an empty row.\<close>

fun argmin_from :: "nat \<Rightarrow> real \<Rightarrow> nat \<Rightarrow> real list \<Rightarrow> nat" where
  "argmin_from best bv i [] = best"
| "argmin_from best bv i (x # xs) =
     (if x < bv then argmin_from i x (Suc i) xs else argmin_from best bv (Suc i) xs)"

definition argmin :: "real list \<Rightarrow> nat option" where
  "argmin xs = (case xs of [] \<Rightarrow> None | x # rest \<Rightarrow> Some (argmin_from 0 x 1 rest))"

fun argmax_from :: "nat \<Rightarrow> real \<Rightarrow> nat \<Rightarrow> real list \<Rightarrow> nat" where
  "argmax_from best bv i [] = best"
| "argmax_from best bv i (x # xs) =
     (if bv < x then argmax_from i x (Suc i) xs else argmax_from best bv (Suc i) xs)"

definition argmax :: "real list \<Rightarrow> nat option" where
  "argmax xs = (case xs of [] \<Rightarrow> None | x # rest \<Rightarrow> Some (argmax_from 0 x 1 rest))"

text \<open>\<open>np.argsort\<close> on a short row (insertion sort, stable): the positions in ascending
  order of their values.\<close>

definition argsort :: "real list \<Rightarrow> nat list" where
  "argsort xs = map snd (sort_key fst (zip xs [0..<length xs]))"

section \<open>matchingSkimmer: the jet-assignment lookup table\<close>

type_synonym pair = "nat \<times> nat"
type_synonym pairing = "pair \<times> pair"

definition MIN_JETS :: nat where "MIN_JETS = 4"
definition MAX_JETS :: nat where "MAX_JETS = 4"
definition HIGGS_MASS :: real where "HIGGS_MASS = 125"

text \<open>\<open>itertools.combinations(xs, 2)\<close>, in the order the iterator yields.\<close>

fun combinations2 :: "'a list \<Rightarrow> ('a \<times> 'a) list" where
  "combinations2 [] = []"
| "combinations2 (x # xs) = map (Pair x) xs @ combinations2 xs"

text \<open>The class attribute \<open>JET_ASSIGNMENTS\<close>: a dictionary with one entry for every
  \<open>nj\<close> in \<open>range(MIN_JETS, MAX_JETS + 1)\<close>.\<close>

definition JET_ASSIGNMENTS :: "nat \<Rightarrow> pairing list option" where
  "JET_ASSIGNMENTS nj =
     (if MIN_JETS \<le> nj \<and> nj < MAX_JETS + 1 then
        Some (let a = combinations2 [0..<nj] in
              filter (\<lambda>(i, j). length (remdups [fst i, snd i, fst j, snd j]) = MIN_JETS)
                (combinations2 a))
      else None)"

section \<open>matchingSkimmer.getJetAssignmentVars\<close>

text \<open>
  The four-vector arithmetic belongs to the external \<open>vector\<close> package.  The model
  takes its operations as a parameter: the constructor from \<open>(pt, eta, phi, M)\<close>, the
  sum of two vectors, the invariant mass, the transverse momentum, pseudorapidity and
  azimuth, \<open>a.boostCM_of(b)\<close> and \<open>a.deltaR(b)\<close>.
\<close>

record 'v vec_ops =
  vmake :: "real \<Rightarrow> real \<Rightarrow> real \<Rightarrow> real \<Rightarrow> 'v"
  vadd :: "'v \<Rightarrow> 'v \<Rightarrow> 'v"
  vM :: "'v \<Rightarrow> real"
  vpt :: "'v \<Rightarrow> real"
  veta :: "'v \<Rightarrow> real"
  vphi :: "'v \<Rightarrow> real"
  vboostCM_of :: "'v \<Rightarrow> 'v \<Rightarrow> 'v"
  vdeltaR :: "'v \<Rightarrow> 'v \<Rightarrow> real"

text \<open>One jet slot of the columns \<open>ak4JetPt\<close>, \<open>ak4JetEta\<close>, \<open>ak4JetPhi\<close>,
  \<open>ak4JetMass\<close>; an event is the row of its slots.\<close>

record jet4 =
  ak4JetPt :: real
  ak4JetEta :: real
  ak4JetPhi :: real
  ak4JetMass :: real

definition event_jets :: "'v vec_ops \<Rightarrow> jet4 list \<Rightarrow> 'v list" where
  "event_jets ops row =
     map (\<lambda>j. vmake ops (ak4JetPt j) (ak4JetEta j) (ak4JetPhi j) (ak4JetMass j)) row"

definition pair_dijet :: "'v vec_ops \<Rightarrow> 'v list \<Rightarrow> pair \<Rightarrow> 'v" where
  "pair_dijet ops jets p = vadd ops (jets ! fst p) (jets ! snd p)"

definition pairing_in_range :: "nat \<Rightarrow> pairing \<Rightarrow> bool" where
  "pairing_in_range n pq =
     (fst (fst pq) < n \<and> snd (fst pq) < n \<and> fst (snd pq) < n \<and> snd (snd pq) < n)"

text \<open>\<open>jj = jets[:, JA[:, :, 0]] + jets[:, JA[:, :, 1]]\<close> for one event; an index past
  the row is numpy's IndexError.\<close>

definition jj_event :: "'v vec_ops \<Rightarrow> pairing list \<Rightarrow> 'v list \<Rightarrow> error + ('v \<times> 'v) list" where
  "jj_event ops ja jets =
     (if list_all (pairing_in_range (length jets)) ja
      then Inr (map (\<lambda>pq. (pair_dijet ops jets (fst pq), pair_dijet ops jets (snd pq))) ja)
      else Inl IndexError)"

definition mjj_event :: "'v vec_ops \<Rightarrow> ('v \<times> 'v) list \<Rightarrow> real list list" where
  "mjj_event ops jj = map (\<lambda>d. [vM ops (fst d), vM ops (snd d)]) jj"

definition chi2_row :: "real list \<Rightarrow> real" where
  "chi2_row ms = sum_list (map (\<lambda>m. (m - HIGGS_MASS)\<^sup>2) ms)"

definition dhh_k :: real where "dhh_k = 125 / 120"

definition delta_d_row :: "real list \<Rightarrow> error + real" where
  "delta_d_row ms =
     (case rev (sort ms) of
        m0 # m1 # _ \<Rightarrow> Inr (\<bar>m0 - dhh_k * m1\<bar> / sqrt (1 + dhh_k\<^sup>2))
      | _ \<Rightarrow> Inl IndexError)"

definition com_pt_event :: "'v vec_ops \<Rightarrow> ('v \<times> 'v) list \<Rightarrow> real list" where
  "com_pt_event ops jj =
     map (\<lambda>d. let cm = vadd ops (fst d) (snd d)
              in vpt ops (vboostCM_of ops (fst d) cm) + vpt ops (vboostCM_of ops (snd d) cm)) jj"

text \<open>Lines 342--344: the index chosen by the \<open>chi2\<close> method.\<close>

definition chi2_index :: "real list list \<Rightarrow> error + nat" where
  "chi2_index mjj =
     (case argmin (map chi2_row mjj) of None \<Rightarrow> Inl ValueError | Some index \<Rightarrow> Inr index)"

text \<open>Lines 353--377: the index chosen by the \<open>dhh\<close> method.\<close>

definition dhh_index :: "real list list \<Rightarrow> real list \<Rightarrow> error + nat" where
  "dhh_index mjj com_pt =
     (case sequence (map delta_d_row mjj) of
        Inl e \<Rightarrow> Inl e
      | Inr delta_d \<Rightarrow>
          (case argmin delta_d of
             None \<Rightarrow> Inl ValueError
           | Some index_mindhh \<Rightarrow>
               (case rev (sort delta_d) of
                  d0 # d1 # _ \<Rightarrow>
                    (let is_dhh_tooclose = (d0 - d1 < 30) in
                     case argmax com_pt of
                       None \<Rightarrow> Inl ValueError
                     | Some index_max_com_pt \<Rightarrow>
                         Inr (if is_dhh_tooclose then index_max_com_pt else index_mindhh))
                | _ \<Rightarrow> Inl IndexError)))"

text \<open>Lines 383--418 for one event: the chosen pairing's two pairs, their dijets, and
  the dijets again after the pairs are put in descending order of dijet \<open>pt\<close>.\<close>

record 'v bb_event =
  first_bb_pair :: pair
  second_bb_pair :: pair
  first_bb_dijet :: 'v
  second_bb_dijet :: 'v

definition sort_by_dijet_pt :: "'v vec_ops \<Rightarrow> 'v list \<Rightarrow> pairing \<Rightarrow> 'v bb_event" where
  "sort_by_dijet_pt ops jets pq =
     (let first_pair = fst pq;
          first_dijet = pair_dijet ops jets first_pair;
          second_pair = snd pq;
          second_dijet = pair_dijet ops jets second_pair;
          bb_pairs = [first_pair, second_pair];
          bbs_jjpt = [vpt ops first_dijet, vpt ops second_dijet];
          sort_by_jjpt = rev (argsort bbs_jjpt);
          first_bb_pair_sort = bb_pairs ! (sort_by_jjpt ! 0);
          second_bb_pair_sort = bb_pairs ! (sort_by_jjpt ! 1)
      in \<lparr>first_bb_pair = first_pair,
          second_bb_pair = second_pair,
          first_bb_dijet = pair_dijet ops jets first_bb_pair_sort,
          second_bb_dijet = pair_dijet ops jets second_bb_pair_sort\<rparr>)"

definition table_row :: "pairing list \<Rightarrow> nat \<Rightarrow> error + pairing" where
  "table_row ja index = (if index < length ja then Inr (ja ! index) else Inl IndexError)"

definition chi2_event :: "'v vec_ops \<Rightarrow> pairing list \<Rightarrow> jet4 list \<Rightarrow> error + pairing" where
  "chi2_event ops ja row =
     (case jj_event ops ja (event_jets ops row) of
        Inl e \<Rightarrow> Inl e
      | Inr jj \<Rightarrow>
          (case chi2_index (mjj_event ops jj) of
             Inl e \<Rightarrow> Inl e
           | Inr index \<Rightarrow> table_row ja index))"

definition dhh_event :: "'v vec_ops \<Rightarrow> pairing list \<Rightarrow> jet4 list \<Rightarrow> error + 'v bb_event" where
  "dhh_event ops ja row =
     (let jets = event_jets ops row in
      case jj_event ops ja jets of
        Inl e \<Rightarrow> Inl e
      | Inr jj \<Rightarrow>
          (case dhh_index (mjj_event ops jj) (com_pt_event ops jj) of
             Inl e \<Rightarrow> Inl e
           | Inr index \<Rightarrow>
               (case table_row ja index of
                  Inl e \<Rightarrow> Inl e
                | Inr pq \<Rightarrow> Inr (sort_by_dijet_pt ops jets pq))))"

text \<open>The returned dictionary, in insertion order; a column holds one entry per event.\<close>

datatype column = PairCol "pair list" | RealCol "real list"

definition jetAssignmentDict :: "'v vec_ops \<Rightarrow> 'v bb_event list \<Rightarrow> (string \<times> column) list" where
  "jetAssignmentDict ops evs =
     [(''ak4Pair0'', PairCol (map first_bb_pair evs)),
      (''ak4Pair1'', PairCol (map second_bb_pair evs)),
      (''ak4DijetPt0'', RealCol (map (\<lambda>ev. vpt ops (first_bb_dijet ev)) evs)),
      (''ak4DijetEta0'', RealCol (map (\<lambda>ev. veta ops (first_bb_dijet ev)) evs)),
      (''ak4DijetPhi0'', RealCol (map (\<lambda>ev. vphi ops (first_bb_dijet ev)) evs)),
      (''ak4DijetMass0'', RealCol (map (\<lambda>ev. vM ops (first_bb_dijet ev)) evs)),
      (''ak4DijetPt1'', RealCol (map (\<lambda>ev. vpt ops (second_bb_dijet ev)) evs)),
      (''ak4DijetEta1'', RealCol (map (\<lambda>ev. veta ops (second_bb_dijet ev)) evs)),
      (''ak4DijetPhi1'', RealCol (map (\<lambda>ev. vphi ops (second_bb_dijet ev)) evs)),
      (''ak4DijetMass1'', RealCol (map (\<lambda>ev. vM ops (second_bb_dijet ev)) evs)),
      (''ak4DijetDeltaR'',
         RealCol (map (\<lambda>ev. vdeltaR ops (first_bb_dijet ev) (second_bb_dijet ev)) evs))]"

text \<open>An unknown method leaves \<open>index\<close> unbound: line 383 raises a NameError, after
  line 339 has indexed the jets.\<close>

definition getJetAssignmentVars ::
  "'v vec_ops \<Rightarrow> jet4 list list \<Rightarrow> string \<Rightarrow> error + (string \<times> column) list" where
  "getJetAssignmentVars ops ak4JetVars method =
     (let nj = 4 in
      case JET_ASSIGNMENTS nj of
        None \<Rightarrow> Inl KeyError
      | Some ja \<Rightarrow>
          (if method = ''chi2'' then
             (case sequence (map (chi2_event ops ja) ak4JetVars) of
                Inl e \<Rightarrow> Inl e
              | Inr chosen \<Rightarrow>
                  Inr [(''ak4Pair0chi2'', PairCol (map fst chosen)),
                       (''ak4Pair1chi2'', PairCol (map snd chosen))])
           else if method = ''dhh'' then
             (case sequence (map (dhh_event ops ja) ak4JetVars) of
                Inl e \<Rightarrow> Inl e
              | Inr evs \<Rightarrow> Inr (jetAssignmentDict ops evs))
           else
             (case sequence (map (\<lambda>row. jj_event ops ja (event_jets ops row)) ak4JetVars) of
                Inl e \<Rightarrow> Inl e
              | Inr _ \<Rightarrow> Inl NameError)))"

text \<open>The value of \<open>JET_ASSIGNMENTS[4]\<close> (lemma \<open>JET_ASSIGNMENTS_4\<close> below).\<close>

definition pairings4 :: "pairing list" where
  "pairings4 = [((0, 1), (2, 3)), ((0, 2), (1, 3)), ((0, 3), (1, 2))]"

text \<open>The score of the \<open>chi2\<close> method as the specification words it: the sum over the
  two dijets of a pairing of \<open>(dijet_mass - 125.0)\<^sup>2\<close>.\<close>

definition pairing_chi2 :: "'v vec_ops \<Rightarrow> 'v list \<Rightarrow> pairing \<Rightarrow> real" where
  "pairing_chi2 ops jets pq =
     (vM ops (pair_dijet ops jets (fst pq)) - 125)\<^sup>2 +
     (vM ops (pair_dijet ops jets (snd pq)) - 125)\<^sup>2"

text \<open>Two pairs that are disjoint and together cover the jet indices 0 to 3.\<close>

definition disjoint_cover :: "pair \<Rightarrow> pair \<Rightarrow> bool" where
  "disjoint_cover p q =
     ({fst p, snd p} \<inter> {fst q, snd q} = {} \<and> {fst p, snd p} \<union> {fst q, snd q} = {0, 1, 2, 3})"

subsection \<open>A concrete four-vector arithmetic\<close>

text \<open>
  To run the model on concrete events the operations are instantiated with Cartesian
  four-momenta over the reals: the textbook formulas for the conversion from
  \<open>(pt, eta, phi, M)\<close> with a non-negative mass, the componentwise sum, the invariant
  mass (negative for a space-like vector), the transverse momentum, and the Lorentz
  boost into the rest frame of a second vector.
\<close>

record p4 =
  px :: real
  py :: real
  pz :: real
  E :: real

definition atan2 :: "real \<Rightarrow> real \<Rightarrow> real" where
  "atan2 y x =
     (if 0 < x then arctan (y / x)
      else if x < 0 then (if 0 \<le> y then arctan (y / x) + pi else arctan (y / x) - pi)
      else if 0 < y then pi / 2 else if y < 0 then - pi / 2 else 0)"

definition p4_make :: "real \<Rightarrow> real \<Rightarrow> real \<Rightarrow> real \<Rightarrow> p4" where
  "p4_make pt eta phi M =
     \<lparr>px = pt * cos phi, py = pt * sin phi, pz = pt * sinh eta,
      E = sqrt ((pt * cosh eta)\<^sup>2 + M\<^sup>2)\<rparr>"

definition p4_add :: "p4 \<Rightarrow> p4 \<Rightarrow> p4" where
  "p4_add a b = \<lparr>px = px a + px b, py = py a + py b, pz = pz a + pz b, E = E a + E b\<rparr>"

definition p4_M :: "p4 \<Rightarrow> real" where
  "p4_M a = (let m2 = (E a)\<^sup>2 - ((px a)\<^sup>2 + (py a)\<^sup>2 + (pz a)\<^sup>2)
            in if m2 < 0 then - sqrt (- m2) else sqrt m2)"

definition p4_pt :: "p4 \<Rightarrow> real" where
  "p4_pt a = sqrt ((px a)\<^sup>2 + (py a)\<^sup>2)"

definition p4_eta :: "p4 \<Rightarrow> real" where
  "p4_eta a = arsinh (pz a / p4_pt a)"

definition p4_phi :: "p4 \<Rightarrow> real" where
  "p4_phi a = atan2 (py a) (px a)"

definition p4_boostCM_of :: "p4 \<Rightarrow> p4 \<Rightarrow> p4" where
  "p4_boostCM_of a cm =
     (let bx = - (px cm / E cm); by = - (py cm / E cm); bz = - (pz cm / E cm);
          b2 = bx\<^sup>2 + by\<^sup>2 + bz\<^sup>2;
          gam = 1 / sqrt (1 - b2);
          bgam = gam\<^sup>2 / (1 + gam);
          bp = bx * px a + by * py a + bz * pz a
      in \<lparr>px = px a + bgam * bp * bx + gam * bx * E a,
          py = py a + bgam * bp * by + gam * by * E a,
          pz = pz a + bgam * bp * bz + gam * bz * E a,
          E = gam * (E a + bp)\<rparr>)"

definition p4_deltaR :: "p4 \<Rightarrow> p4 \<Rightarrow> real" where
  "p4_deltaR a b =
     (let d = p4_phi a - p4_phi b + pi;
          dphi = d - 2 * pi * of_int \<lfloor>d / (2 * pi)\<rfloor> - pi
      in sqrt ((p4_eta a - p4_eta b)\<^sup>2 + dphi\<^sup>2))"

definition p4_ops :: "p4 vec_ops" where
  "p4_ops = \<lparr>vmake = p4_make, vadd = p4_add, vM = p4_M, vpt = p4_pt, veta = p4_eta,
             vphi = p4_phi, vboostCM_of = p4_boostCM_of, vdeltaR = p4_deltaR\<rparr>"

text \<open>A sample event: four collinear jets with vanishing total momentum, followed by
  two further slots.  Its three pairings have the dijet masses \<open>(64, 55)\<close>, \<open>(21, 30)\<close>
  and \<open>(28, 125)\<close>.\<close>

definition jet :: "real \<Rightarrow> real \<Rightarrow> real \<Rightarrow> real \<Rightarrow> jet4" where
  "jet pt eta phi M = \<lparr>ak4JetPt = pt, ak4JetEta = eta, ak4JetPhi = phi, ak4JetMass = M\<rparr>"

definition event0 :: "jet4 list" where
  "event0 = [jet 12 0 pi 9, jet 60 0 0 25, jet 60 0 pi 0, jet 12 0 0 5, jet 10 0 0 0, jet 10 0 0 0]"

text \<open>A second sample event, moving along the axis: its pairings have the dijet masses
  \<open>(220, 256)\<close>, \<open>(84, 120)\<close> and \<open>(500, 112)\<close>, and the two dijets of the first pairing
  have the transverse momenta 21 and 480.\<close>

definition event1 :: "jet4 list" where
  "event1 = [jet 120 0 pi 0, jet 99 0 0 20, jet 15 0 pi 36, jet 495 0 0 100, jet 10 0 0 0, jet 10 0 0 0]"

section \<open>objects.py: physics-object selection\<close>

text \<open>
  A selection configuration is a dictionary with fixed keys.  A collection is a jagged
  array: one list of objects per event, and masking keeps, in every event, the objects
  whose mask entry is true.  The boolean fields of an object are looked up by name; a
  name that is no field raises, which is \<open>FieldError\<close>.
\<close>

record lepton_selection =
  sel_pt :: real
  sel_eta :: real
  sel_miniPFRelIso_all :: real
  sel_id :: string

definition muon_selection :: lepton_selection where
  "muon_selection = \<lparr>sel_pt = 30, sel_eta = 2.4, sel_miniPFRelIso_all = 0.2, sel_id = ''Tight''\<rparr>"



record muon =
  muon_pt :: real
  muon_eta :: real
  muon_miniPfRelIso_all :: real
  muon_flags :: "(string \<times> bool) list"

text \<open>The mask of one object list, or the error of the first failing lookup.\<close>

definition flag_field :: "string \<Rightarrow> (string \<times> bool) list \<Rightarrow> error + bool" where
  "flag_field name flags = (case map_of flags name of None \<Rightarrow> Inl FieldError | Some b \<Rightarrow> Inr b)"

definition apply_mask :: "('a \<Rightarrow> error + bool) \<Rightarrow> 'a list list \<Rightarrow> error + 'a list list" where
  "apply_mask sel objs =
     (case sequence (map (\<lambda>ev. sequence (map sel ev)) objs) of
        Inl e \<Rightarrow> Inl e
      | Inr keep \<Rightarrow> Inr (map (\<lambda>(ev, m). map fst (filter snd (zip ev m))) (zip objs keep)))"

definition good_muons :: "muon list list \<Rightarrow> lepton_selection \<Rightarrow> error + muon list list" where
  "good_muons muons selection =
     apply_mask
       (\<lambda>m. case flag_field (''is'' @ sel_id selection) (muon_flags m) of
               Inl e \<Rightarrow> Inl e
             | Inr is_id \<Rightarrow>
                 Inr (muon_pt m \<ge> sel_pt selection
                      \<and> muon_eta m \<le> sel_eta selection
                      \<and> muon_miniPfRelIso_all m \<le> sel_miniPFRelIso_all selection
                      \<and> is_id))
       muons"





text \<open>Sample objects: two muons that differ in the sign of their pseudorapidity only,
  and two fat jets.\<close>

definition muon_backward :: muon where
  "muon_backward = \<lparr>muon_pt = 50, muon_eta = -3, muon_miniPfRelIso_all = 0.1,
                    muon_flags = [(''isTight'', True)]\<rparr>"

definition muon_forward :: muon where
  "muon_forward = \<lparr>muon_pt = 50, muon_eta = 3, muon_miniPfRelIso_all = 0.1,
                   muon_flags = [(''isTight'', True)]\<rparr>"



section \<open>TrainBDT.py\<close>

subsection \<open>\<open>_get_bdt_scores\<close>\<close>

text \<open>
  The matrix of predicted probabilities is the list of its rows, and only the number of
  signal keys is used.  The slices \<open>preds[:, 1:]\<close> and \<open>preds[:, :1]\<close> keep their entries;
  the renormalised score is the result of a division, \<open>None\<close> when the divisor is zero.
\<close>

definition get_bdt_scores :: "real list list \<Rightarrow> string list \<Rightarrow> bool \<Rightarrow> real option list list" where
  "get_bdt_scores preds sig_keys multiclass =
     (if \<not> multiclass then map (\<lambda>row. map Some (drop 1 row)) preds
      else if length sig_keys = 1 then map (\<lambda>row. map Some (take 1 row)) preds
      else map (\<lambda>row. let bg_tot = sum_list (drop (length sig_keys) row)
                       in map (\<lambda>p. np_divide p (p + bg_tot)) (take (length sig_keys) row))
             preds)"

subsection \<open>\<open>preprocess_data\<close>: the event weights\<close>

text \<open>
  Lines 144--205.  \<open>events_dict\<close> gives the \<open>finalWeight\<close> column of each sample,
  \<open>weights_bdt\<close> its absolute values, and the result is the \<open>weight\<close> column of the
  concatenated table, per sample key.  \<open>sig_keys\<close> and \<open>bg_keys\<close> are the module-level
  \<open>args.sig_keys\<close> and \<open>args.bg_keys\<close>.  A missing dictionary key is \<open>KeyError\<close>, the
  minimum of an empty array \<open>ValueError\<close>.  A weight scaled by a non-finite factor is
  non-finite.
\<close>

type_synonym weights = "string \<rightharpoonup> real list"





definition floor_negative :: "real list \<Rightarrow> real list" where
  "floor_negative ws = map (\<lambda>w. if w < 0 then 0 else w) ws"









text \<open>A sample's total weight: the sum of the absolute values of its \<open>finalWeight\<close>
  column.\<close>

definition abs_total :: "weights \<Rightarrow> string \<Rightarrow> real" where
  "abs_total events_dict key =
     (case events_dict key of None \<Rightarrow> 0 | Some finalWeight \<Rightarrow> sum_list (map abs finalWeight))"


text \<open>Four samples: two signals with total weights 10 and 30, two backgrounds with
  total weight 80.\<close>

definition sample_weights :: weights where
  "sample_weights =
     map_of [(''hh4b'', [4, -6]), (''vbfhh4b'', [10, -20]), (''qcd'', [50]), (''ttbar'', [-30])]"

section \<open>run_utils.py: \<open>get_fileset\<close>\<close>















section \<open>matchingSkimmer.process: generator weights and gen-level dispatch\<close>

text \<open>
  Lines 116--145 and 210--215.  A chunk carries its dataset name, its number of events
  and, for simulation only, the \<open>genWeight\<close> column.  The gen-level routines are
  external; the model records which of them \<open>process\<close> calls.
\<close>








section \<open>Properties\<close>

subsection \<open>Auxiliary facts\<close>

lemma JET_ASSIGNMENTS_4: "JET_ASSIGNMENTS 4 = Some pairings4"
  by (simp add: JET_ASSIGNMENTS_def MIN_JETS_def MAX_JETS_def upt_rec pairings4_def)

lemma argmin_from_cases:
  "(argmin_from b bv i xs = b \<and> (\<forall>x\<in>set xs. bv \<le> x)) \<or>
   (i \<le> argmin_from b bv i xs \<and> argmin_from b bv i xs < i + length xs \<and>
      xs ! (argmin_from b bv i xs - i) < bv \<and> (\<forall>x\<in>set xs. xs ! (argmin_from b bv i xs - i) \<le> x))"
proof (induction xs arbitrary: b bv i)
  case Nil
  then show ?case by simp
next
  case (Cons x xs)
  show ?case
  proof (cases "x < bv")
    case True
    define r where "r = argmin_from i x (Suc i) xs"
    from Cons.IH[of i x "Suc i"] have
      "(r = i \<and> (\<forall>y\<in>set xs. x \<le> y)) \<or>
       (Suc i \<le> r \<and> r < Suc i + length xs \<and> xs ! (r - Suc i) < x \<and> (\<forall>y\<in>set xs. xs ! (r - Suc i) \<le> y))"
      by (simp add: r_def)
    then have "i \<le> r \<and> r < i + length (x # xs) \<and> (x # xs) ! (r - i) < bv \<and>
        (\<forall>y\<in>set (x # xs). (x # xs) ! (r - i) \<le> y)"
    proof
      assume "r = i \<and> (\<forall>y\<in>set xs. x \<le> y)"
      then show ?thesis using True by auto
    next
      assume a: "Suc i \<le> r \<and> r < Suc i + length xs \<and> xs ! (r - Suc i) < x \<and> (\<forall>y\<in>set xs. xs ! (r - Suc i) \<le> y)"
      then have "r - i = Suc (r - Suc i)" by arith
      then show ?thesis using a True by auto
    qed
    then show ?thesis using True by (simp add: r_def)
  next
    case False
    define r where "r = argmin_from b bv (Suc i) xs"
    from Cons.IH[of b bv "Suc i"] have
      "(r = b \<and> (\<forall>y\<in>set xs. bv \<le> y)) \<or>
       (Suc i \<le> r \<and> r < Suc i + length xs \<and> xs ! (r - Suc i) < bv \<and> (\<forall>y\<in>set xs. xs ! (r - Suc i) \<le> y))"
      by (simp add: r_def)
    then have "(r = b \<and> (\<forall>y\<in>set (x # xs). bv \<le> y)) \<or> (i \<le> r \<and> r < i + length (x # xs) \<and> (x # xs) ! (r - i) < bv \<and>
        (\<forall>y\<in>set (x # xs). (x # xs) ! (r - i) \<le> y))"
    proof
      assume "r = b \<and> (\<forall>y\<in>set xs. bv \<le> y)"
      then show ?thesis using False by auto
    next
      assume a: "Suc i \<le> r \<and> r < Suc i + length xs \<and> xs ! (r - Suc i) < bv \<and> (\<forall>y\<in>set xs. xs ! (r - Suc i) \<le> y)"
      then have "r - i = Suc (r - Suc i)" by arith
      then show ?thesis using a False by auto
    qed
    then show ?thesis using False by (simp add: r_def)
  qed
qed

lemma argmin_Some_set:
  assumes "argmin xs = Some i"
  shows "i < length xs \<and> (\<forall>y\<in>set xs. xs ! i \<le> y)"
proof (cases xs)
  case Nil
  with assms show ?thesis by (simp add: argmin_def)
next
  case (Cons x rest)
  with assms have i: "i = argmin_from 0 x 1 rest" by (simp add: argmin_def)
  from argmin_from_cases[of 0 x 1 rest] show ?thesis
  proof
    assume a: "argmin_from 0 x 1 rest = 0 \<and> (\<forall>y\<in>set rest. x \<le> y)"
    then show ?thesis using i Cons by auto
  next
    assume a: "1 \<le> argmin_from 0 x 1 rest \<and> argmin_from 0 x 1 rest < 1 + length rest \<and>
      rest ! (argmin_from 0 x 1 rest - 1) < x \<and> (\<forall>y\<in>set rest. rest ! (argmin_from 0 x 1 rest - 1) \<le> y)"
    then have "xs ! i = rest ! (i - 1)" using i Cons by (auto simp: nth_Cons split: nat.splits)
    moreover have "\<forall>y\<in>set xs. rest ! (i - 1) \<le> y" using a i Cons by auto
    ultimately show ?thesis using a i Cons by auto
  qed
qed

lemma argmin_Some:
  assumes "argmin xs = Some i"
  shows "i < length xs \<and> (\<forall>j<length xs. xs ! i \<le> xs ! j)"
  using argmin_Some_set[OF assms] by auto

lemma argmin_nonempty: "xs \<noteq> [] \<Longrightarrow> \<exists>i. argmin xs = Some i"
  by (cases xs) (simp_all add: argmin_def)

lemma sequence_map_Inr:
  "sequence (map f xs) = Inr ys \<Longrightarrow> length ys = length xs \<and> (\<forall>i<length xs. f (xs ! i) = Inr (ys ! i))"
proof (induction xs arbitrary: ys)
  case Nil
  then show ?case by simp
next
  case (Cons x xs)
  then show ?case
    by (auto split: sum.splits simp: nth_Cons split: nat.splits)
qed

lemma sequence_map_total:
  "(\<forall>x\<in>set xs. \<exists>y. f x = Inr y) \<Longrightarrow> \<exists>ys. sequence (map f xs) = Inr ys"
proof (induction xs)
  case Nil
  then show ?case by simp
next
  case (Cons x xs)
  then show ?case by (auto split: sum.splits)
qed

lemma sqrt_sq [simp]:
  "sqrt 225 = 15" "sqrt 4225 = 65" "sqrt 3600 = 60" "sqrt 169 = 13" "sqrt 100 = 10"
  "sqrt 4096 = 64" "sqrt 3025 = 55" "sqrt 900 = 30" "sqrt 441 = 21" "sqrt 15625 = 125" "sqrt 784 = 28"
  "sqrt 2304 = 48" "sqrt 5184 = 72" "sqrt 144 = 12"
  using real_sqrt_unique[of 15 225] real_sqrt_unique[of 65 4225] real_sqrt_unique[of 60 3600]
   real_sqrt_unique[of 13 169] real_sqrt_unique[of 10 100] real_sqrt_unique[of 64 4096]
   real_sqrt_unique[of 55 3025] real_sqrt_unique[of 30 900] real_sqrt_unique[of 21 441]
   real_sqrt_unique[of 125 15625] real_sqrt_unique[of 28 784] real_sqrt_unique[of 48 2304]
   real_sqrt_unique[of 72 5184] real_sqrt_unique[of 12 144]
  by simp_all

lemma event0_jets:
  "event_jets p4_ops event0 =
     [\<lparr>px = -12, py = 0, pz = 0, E = 15\<rparr>, \<lparr>px = 60, py = 0, pz = 0, E = 65\<rparr>,
      \<lparr>px = -60, py = 0, pz = 0, E = 60\<rparr>, \<lparr>px = 12, py = 0, pz = 0, E = 13\<rparr>,
      \<lparr>px = 10, py = 0, pz = 0, E = 10\<rparr>, \<lparr>px = 10, py = 0, pz = 0, E = 10\<rparr>]"
  by (simp add: event_jets_def event0_def jet_def p4_ops_def p4_make_def)

lemma event0_jj:
  "jj_event p4_ops pairings4 (event_jets p4_ops event0) =
     Inr [(\<lparr>px = 48, py = 0, pz = 0, E = 80\<rparr>, \<lparr>px = -48, py = 0, pz = 0, E = 73\<rparr>),
          (\<lparr>px = -72, py = 0, pz = 0, E = 75\<rparr>, \<lparr>px = 72, py = 0, pz = 0, E = 78\<rparr>),
          (\<lparr>px = 0, py = 0, pz = 0, E = 28\<rparr>, \<lparr>px = 0, py = 0, pz = 0, E = 125\<rparr>)]"
  unfolding event0_jets
  by (simp add: jj_event_def pairings4_def pairing_in_range_def pair_dijet_def p4_ops_def p4_add_def)

lemma event0_mjj:
  "mjj_event p4_ops
      [(\<lparr>px = 48, py = 0, pz = 0, E = 80\<rparr>, \<lparr>px = -48, py = 0, pz = 0, E = 73\<rparr>),
          (\<lparr>px = -72, py = 0, pz = 0, E = 75\<rparr>, \<lparr>px = 72, py = 0, pz = 0, E = 78\<rparr>),
          (\<lparr>px = 0, py = 0, pz = 0, E = 28\<rparr>, \<lparr>px = 0, py = 0, pz = 0, E = 125\<rparr>)]
    = [[64, 55], [21, 30], [28, 125]]"
  by (simp add: mjj_event_def p4_ops_def p4_M_def)

lemma event0_com_pt:
  "com_pt_event p4_ops
      [(\<lparr>px = 48, py = 0, pz = 0, E = 80\<rparr>, \<lparr>px = -48, py = 0, pz = 0, E = 73\<rparr>),
          (\<lparr>px = -72, py = 0, pz = 0, E = 75\<rparr>, \<lparr>px = 72, py = 0, pz = 0, E = 78\<rparr>),
          (\<lparr>px = 0, py = 0, pz = 0, E = 28\<rparr>, \<lparr>px = 0, py = 0, pz = 0, E = 125\<rparr>)]
    = [96, 144, 0]"
  by (simp add: com_pt_event_def p4_ops_def p4_boostCM_of_def p4_add_def p4_pt_def Let_def)




lemma delta_d_row_pair:
  "delta_d_row [a, b] = Inr (\<bar>max a b - dhh_k * min a b\<bar> / sqrt (1 + dhh_k\<^sup>2))"
  by (simp add: delta_d_row_def max_def min_def)


lemma dhh_index_eq:
  "sequence (map delta_d_row mjj) = Inr dd \<Longrightarrow> argmin dd = Some i \<Longrightarrow> argmax cp = Some j \<Longrightarrow>
   rev (sort dd) = d0 # d1 # r \<Longrightarrow> dhh_index mjj cp = Inr (if d0 - d1 < 30 then j else i)"
  by (simp add: dhh_index_def)

lemma sequence_delta_d_three:
  "sequence (map delta_d_row [[a0, b0], [a1, b1], [a2, b2]]) =
     Inr [\<bar>max a0 b0 - dhh_k * min a0 b0\<bar> / sqrt (1 + dhh_k\<^sup>2),
          \<bar>max a1 b1 - dhh_k * min a1 b1\<bar> / sqrt (1 + dhh_k\<^sup>2),
          \<bar>max a2 b2 - dhh_k * min a2 b2\<bar> / sqrt (1 + dhh_k\<^sup>2)]"
  by (simp add: delta_d_row_pair)


lemma sort_by_dijet_pt_pairs:
  "first_bb_pair (sort_by_dijet_pt ops jets pq) = fst pq"
  "second_bb_pair (sort_by_dijet_pt ops jets pq) = snd pq"
  by (simp_all add: sort_by_dijet_pt_def Let_def)


lemma jj_event_pairings4:
  "4 \<le> length jets \<Longrightarrow>
   jj_event ops pairings4 jets =
     Inr [(pair_dijet ops jets (0, 1), pair_dijet ops jets (2, 3)),
          (pair_dijet ops jets (0, 2), pair_dijet ops jets (1, 3)),
          (pair_dijet ops jets (0, 3), pair_dijet ops jets (1, 2))]"
  by (auto simp: jj_event_def pairings4_def pairing_in_range_def)

lemma dhh_event_eq:
  "jj_event ops ja (event_jets ops row) = Inr jj \<Longrightarrow>
   dhh_index (mjj_event ops jj) (com_pt_event ops jj) = Inr index \<Longrightarrow> index < length ja \<Longrightarrow>
   dhh_event ops ja row = Inr (sort_by_dijet_pt ops (event_jets ops row) (ja ! index))"
  by (simp add: dhh_event_def Let_def table_row_def)

lemma chi2_event_eq:
  "jj_event ops ja (event_jets ops row) = Inr jj \<Longrightarrow>
   argmin (map chi2_row (mjj_event ops jj)) = Some index \<Longrightarrow> index < length ja \<Longrightarrow>
   chi2_event ops ja row = Inr (ja ! index)"
  by (simp add: chi2_event_def chi2_index_def table_row_def)

lemma length_pairings4: "length pairings4 = 3"
  by (simp add: pairings4_def)


lemma chi2_event_pairings4:
  assumes "4 \<le> length row"
  shows "\<exists>jj index. jj_event ops pairings4 (event_jets ops row) = Inr jj \<and>
           argmin (map chi2_row (mjj_event ops jj)) = Some index \<and> index < 3 \<and>
           chi2_event ops pairings4 row = Inr (pairings4 ! index)"
proof -
  let ?jets = "event_jets ops row"
  let ?jj = "[(pair_dijet ops ?jets (0, 1), pair_dijet ops ?jets (2, 3)),
          (pair_dijet ops ?jets (0, 2), pair_dijet ops ?jets (1, 3)),
          (pair_dijet ops ?jets (0, 3), pair_dijet ops ?jets (1, 2))]"
  have len: "4 \<le> length ?jets" using assms by (simp add: event_jets_def)
  have jj: "jj_event ops pairings4 ?jets = Inr ?jj" by (rule jj_event_pairings4[OF len])
  obtain index where i: "argmin (map chi2_row (mjj_event ops ?jj)) = Some index"
    using argmin_nonempty[of "map chi2_row (mjj_event ops ?jj)"] by (auto simp: mjj_event_def)
  have i3: "index < 3" using argmin_Some[OF i] by (simp add: mjj_event_def)
  have "chi2_event ops pairings4 row = Inr (pairings4 ! index)"
    using chi2_event_eq[OF jj i] i3 by (simp add: length_pairings4)
  then show ?thesis using jj i i3 by blast
qed

lemma getJetAssignmentVars_chi2:
  "getJetAssignmentVars ops rows ''chi2'' =
     (case sequence (map (chi2_event ops pairings4) rows) of
        Inl e \<Rightarrow> Inl e
      | Inr chosen \<Rightarrow>
          Inr [(''ak4Pair0chi2'', PairCol (map fst chosen)),
               (''ak4Pair1chi2'', PairCol (map snd chosen))])"
  by (simp add: getJetAssignmentVars_def JET_ASSIGNMENTS_4)

lemma getJetAssignmentVars_dhh:
  "getJetAssignmentVars ops rows ''dhh'' =
     (case sequence (map (dhh_event ops pairings4) rows) of
        Inl e \<Rightarrow> Inl e
      | Inr evs \<Rightarrow> Inr (jetAssignmentDict ops evs))"
  by (simp add: getJetAssignmentVars_def JET_ASSIGNMENTS_4)

lemma chi2_row_pairing:
  "jj_event ops ja jets = Inr jj \<Longrightarrow> j < length ja \<Longrightarrow>
   chi2_row (mjj_event ops jj ! j) = pairing_chi2 ops jets (ja ! j)"
  by (auto simp: jj_event_def mjj_event_def chi2_row_def pairing_chi2_def HIGGS_MASS_def
      split: if_splits)

lemma jj_event_length: "jj_event ops ja jets = Inr jj \<Longrightarrow> length jj = length ja"
  by (auto simp: jj_event_def split: if_splits)

lemma chi2_event_min:
  assumes "4 \<le> length row"
  shows "\<exists>pq. chi2_event ops pairings4 row = Inr pq \<and> pq \<in> set pairings4 \<and>
           (\<forall>qr\<in>set pairings4. pairing_chi2 ops (event_jets ops row) pq
                           \<le> pairing_chi2 ops (event_jets ops row) qr)"
proof -
  from chi2_event_pairings4[OF assms, of ops] obtain jj index where
    jj: "jj_event ops pairings4 (event_jets ops row) = Inr jj" and
    i: "argmin (map chi2_row (mjj_event ops jj)) = Some index" and
    i3: "index < 3" and
    ev: "chi2_event ops pairings4 row = Inr (pairings4 ! index)" by blast
  have len: "length (mjj_event ops jj) = 3"
    using jj_event_length[OF jj] by (simp add: mjj_event_def length_pairings4)
  have "pairing_chi2 ops (event_jets ops row) (pairings4 ! index)
          \<le> pairing_chi2 ops (event_jets ops row) qr" if "qr \<in> set pairings4" for qr
  proof -
    from that obtain j where j: "j < 3" "pairings4 ! j = qr"
      by (auto simp: in_set_conv_nth length_pairings4)
    from argmin_Some[OF i] j(1) len i3
    have "chi2_row (mjj_event ops jj ! index) \<le> chi2_row (mjj_event ops jj ! j)"
      by auto
    then show ?thesis
      using chi2_row_pairing[OF jj, of index] chi2_row_pairing[OF jj, of j] i3 j
      by (simp add: length_pairings4)
  qed
  moreover have "pairings4 ! index \<in> set pairings4" using i3 by (simp add: length_pairings4)
  ultimately show ?thesis using ev by blast
qed

subsection \<open>The \<open>chi2\<close> method\<close>

text \<open>
  Claim C6.  For every event processed by \<open>getJetAssignmentVars\<close> with method
  \<open>chi2\<close>, the selected pairing is one of the three pairings of the lookup table and
  minimizes, among them, the sum over its two dijets of \<open>(dijet_mass - 125.0)\<^sup>2\<close>; the
  returned dictionary holds exactly the two index-pair columns \<open>ak4Pair0chi2\<close> and
  \<open>ak4Pair1chi2\<close>, one entry per event, and no dijet-kinematic or ordering column.
\<close>

theorem chi2_method_minimizes:
  assumes "\<forall>row\<in>set ak4JetVars. 4 \<le> length row"
  shows "\<exists>ja p0 p1. JET_ASSIGNMENTS 4 = Some ja \<and>
      getJetAssignmentVars ops ak4JetVars ''chi2'' =
        Inr [(''ak4Pair0chi2'', PairCol p0), (''ak4Pair1chi2'', PairCol p1)] \<and>
      length p0 = length ak4JetVars \<and> length p1 = length ak4JetVars \<and>
      (\<forall>e<length ak4JetVars.
         (p0 ! e, p1 ! e) \<in> set ja \<and>
         (\<forall>qr\<in>set ja. pairing_chi2 ops (event_jets ops (ak4JetVars ! e)) (p0 ! e, p1 ! e)
                        \<le> pairing_chi2 ops (event_jets ops (ak4JetVars ! e)) qr))"
proof -
  have "\<forall>row\<in>set ak4JetVars. \<exists>pq. chi2_event ops pairings4 row = Inr pq"
    using assms chi2_event_min by blast
  then obtain chosen where ch: "sequence (map (chi2_event ops pairings4) ak4JetVars) = Inr chosen"
    using sequence_map_total by blast
  from sequence_map_Inr[OF ch] have len: "length chosen = length ak4JetVars"
    and each: "\<forall>e<length ak4JetVars. chi2_event ops pairings4 (ak4JetVars ! e) = Inr (chosen ! e)"
    by auto
  have res: "getJetAssignmentVars ops ak4JetVars ''chi2'' =
      Inr [(''ak4Pair0chi2'', PairCol (map fst chosen)), (''ak4Pair1chi2'', PairCol (map snd chosen))]"
    by (simp add: getJetAssignmentVars_chi2 ch)
  have "(map fst chosen ! e, map snd chosen ! e) \<in> set pairings4 \<and>
         (\<forall>qr\<in>set pairings4. pairing_chi2 ops (event_jets ops (ak4JetVars ! e)) (map fst chosen ! e, map snd chosen ! e)
                        \<le> pairing_chi2 ops (event_jets ops (ak4JetVars ! e)) qr)"
    if e: "e < length ak4JetVars" for e
  proof -
    have "4 \<le> length (ak4JetVars ! e)" using assms e by simp
    from chi2_event_min[OF this, of ops] each e
    have "chosen ! e \<in> set pairings4 \<and>
         (\<forall>qr\<in>set pairings4. pairing_chi2 ops (event_jets ops (ak4JetVars ! e)) (chosen ! e)
                        \<le> pairing_chi2 ops (event_jets ops (ak4JetVars ! e)) qr)"
      by auto
    then show ?thesis using e len by simp
  qed
  then show ?thesis using JET_ASSIGNMENTS_4 res len by auto
qed

lemma event0_pairing_chi2:
  "pairing_chi2 p4_ops (event_jets p4_ops event0) ((0, 1), (2, 3)) = 8621"
  "pairing_chi2 p4_ops (event_jets p4_ops event0) ((0, 2), (1, 3)) = 19841"
  "pairing_chi2 p4_ops (event_jets p4_ops event0) ((0, 3), (1, 2)) = 9409"
  unfolding event0_jets
  by (simp_all add: pairing_chi2_def pair_dijet_def p4_ops_def p4_add_def p4_M_def)

lemma length_event0: "length event0 = 6"
  by (simp add: event0_def)

text \<open>The sample event: its first pairing has the smallest score, 8621.\<close>

theorem chi2_method_minimizes_witness:
  "4 \<le> length event0 \<and>
   getJetAssignmentVars p4_ops [event0] ''chi2'' =
     Inr [(''ak4Pair0chi2'', PairCol [(0, 1)]), (''ak4Pair1chi2'', PairCol [(2, 3)])]"
proof -
  have h: "\<forall>row\<in>set [event0]. 4 \<le> length row" by (simp add: length_event0)
  from chi2_method_minimizes[OF h, of p4_ops] obtain ja p0 p1 where
    ja: "JET_ASSIGNMENTS 4 = Some ja" and
    res: "getJetAssignmentVars p4_ops [event0] ''chi2'' =
        Inr [(''ak4Pair0chi2'', PairCol p0), (''ak4Pair1chi2'', PairCol p1)]" and
    len: "length p0 = 1" "length p1 = 1" and
    mem: "(p0 ! 0, p1 ! 0) \<in> set ja" and
    least: "\<forall>qr\<in>set ja. pairing_chi2 p4_ops (event_jets p4_ops event0) (p0 ! 0, p1 ! 0)
                        \<le> pairing_chi2 p4_ops (event_jets p4_ops event0) qr"
    by auto
  have ja_eq: "ja = pairings4" using ja by (simp add: JET_ASSIGNMENTS_4)
  have "pairing_chi2 p4_ops (event_jets p4_ops event0) (p0 ! 0, p1 ! 0) \<le> 8621"
    using least event0_pairing_chi2(1) by (simp add: ja_eq pairings4_def)
  moreover have "(p0 ! 0, p1 ! 0) = ((0, 1), (2, 3)) \<or> (p0 ! 0, p1 ! 0) = ((0, 2), (1, 3))
      \<or> (p0 ! 0, p1 ! 0) = ((0, 3), (1, 2))"
    using mem by (simp add: ja_eq pairings4_def)
  ultimately have "(p0 ! 0, p1 ! 0) = ((0, 1), (2, 3))"
    using event0_pairing_chi2 by auto
  moreover obtain x where x: "p0 = [x]" using len(1) by (cases p0) auto
  moreover obtain y where y: "p1 = [y]" using len(2) by (cases p1) auto
  ultimately have "p0 = [(0, 1)]" "p1 = [(2, 3)]" by auto
  then show ?thesis using res by (simp add: length_event0)
qed

subsection \<open>The \<open>dhh\<close> method on the sample event\<close>

lemma dhh_norm_bounds: "1 < sqrt (1 + dhh_k\<^sup>2)" "sqrt (1 + dhh_k\<^sup>2) < 2"
proof -
  have "1 < 1 + dhh_k\<^sup>2" by (simp add: dhh_k_def)
  then show "1 < sqrt (1 + dhh_k\<^sup>2)" using real_sqrt_gt_1_iff by blast
  have "1 + dhh_k\<^sup>2 < 2\<^sup>2" by (simp add: dhh_k_def power2_eq_square)
  then have "sqrt (1 + dhh_k\<^sup>2) < sqrt (2\<^sup>2)" using real_sqrt_less_iff by blast
  then show "sqrt (1 + dhh_k\<^sup>2) < 2" by simp
qed

lemma event0_delta_d:
  "sequence (map delta_d_row [[64, 55], [21, 30], [28, 125]]) =
     Inr [(161 / 24) / sqrt (1 + dhh_k\<^sup>2), (65 / 8) / sqrt (1 + dhh_k\<^sup>2),
          (575 / 6) / sqrt (1 + dhh_k\<^sup>2)]"
proof -
  have "\<bar>max 64 55 - dhh_k * min 64 55\<bar> = (161 / 24 :: real)"
       "\<bar>max 21 30 - dhh_k * min 21 30\<bar> = (65 / 8 :: real)"
       "\<bar>max 28 125 - dhh_k * min 28 125\<bar> = (575 / 6 :: real)"
    by (simp_all add: dhh_k_def)
  then show ?thesis by (simp only: sequence_delta_d_three)
qed

lemma sort3_ascending: "a \<le> b \<Longrightarrow> b \<le> c \<Longrightarrow> sort [a, b, c] = [a, b, (c::real)]"
  by simp

lemma argmin3_first: "a \<le> b \<Longrightarrow> a \<le> c \<Longrightarrow> argmin [a, b, c] = Some 0"
  by (simp add: argmin_def)

lemma event0_dhh_facts_gen:
  fixes s :: real
  assumes "1 < s" "s < 2"
  shows "(161 / 24) / s \<le> (65 / 8) / s" "(65 / 8) / s \<le> (575 / 6) / s"
    "(65 / 8) / s - (161 / 24) / s < 30" "30 \<le> (575 / 6) / s - (65 / 8) / s"
  using assms by (simp_all add: field_simps)

lemmas event0_dhh_facts = event0_dhh_facts_gen[OF dhh_norm_bounds]

lemma event0_dhh_index:
  "dhh_index [[64, 55], [21, 30], [28, 125]] [96, 144, 0] = Inr 0"
proof -
  let ?s = "sqrt (1 + dhh_k\<^sup>2)"
  let ?dd = "[(161 / 24) / ?s, (65 / 8) / ?s, (575 / 6) / ?s]"
  note f = event0_dhh_facts
  have srt: "sort ?dd = ?dd" using f(1,2) by (rule sort3_ascending)
  have r: "rev (sort ?dd) = (575 / 6) / ?s # (65 / 8) / ?s # [(161 / 24) / ?s]"
    by (simp only: srt) simp
  have i: "argmin ?dd = Some 0" using f(1,2) by (intro argmin3_first) auto
  have j: "argmax [96, 144, 0] = Some 1" by (simp add: argmax_def)
  from dhh_index_eq[OF event0_delta_d i j r] f(4) show ?thesis by simp
qed

lemma event0_dhh_event:
  "dhh_event p4_ops pairings4 event0 =
     Inr (sort_by_dijet_pt p4_ops (event_jets p4_ops event0) ((0, 1), (2, 3)))"
proof -
  have idx: "dhh_index (mjj_event p4_ops
      [(\<lparr>px = 48, py = 0, pz = 0, E = 80\<rparr>, \<lparr>px = -48, py = 0, pz = 0, E = 73\<rparr>),
          (\<lparr>px = -72, py = 0, pz = 0, E = 75\<rparr>, \<lparr>px = 72, py = 0, pz = 0, E = 78\<rparr>),
          (\<lparr>px = 0, py = 0, pz = 0, E = 28\<rparr>, \<lparr>px = 0, py = 0, pz = 0, E = 125\<rparr>)])
     (com_pt_event p4_ops
      [(\<lparr>px = 48, py = 0, pz = 0, E = 80\<rparr>, \<lparr>px = -48, py = 0, pz = 0, E = 73\<rparr>),
          (\<lparr>px = -72, py = 0, pz = 0, E = 75\<rparr>, \<lparr>px = 72, py = 0, pz = 0, E = 78\<rparr>),
          (\<lparr>px = 0, py = 0, pz = 0, E = 28\<rparr>, \<lparr>px = 0, py = 0, pz = 0, E = 125\<rparr>)]) = Inr 0"
    by (simp only: event0_mjj event0_com_pt event0_dhh_index)
  from dhh_event_eq[OF event0_jj idx] show ?thesis
    by (simp add: pairings4_def)
qed

lemma map_of_jetAssignmentDict:
  "map_of (jetAssignmentDict ops evs) ''ak4Pair0'' = Some (PairCol (map first_bb_pair evs))"
  "map_of (jetAssignmentDict ops evs) ''ak4Pair1'' = Some (PairCol (map second_bb_pair evs))"
  "map_of (jetAssignmentDict ops evs) ''ak4DijetPt0'' =
     Some (RealCol (map (\<lambda>ev. vpt ops (first_bb_dijet ev)) evs))"
  "map_of (jetAssignmentDict ops evs) ''ak4DijetPt1'' =
     Some (RealCol (map (\<lambda>ev. vpt ops (second_bb_dijet ev)) evs))"
  by (simp_all add: jetAssignmentDict_def)

text \<open>
  Claim C1 says that the pairing with the largest centre-of-mass \<open>pt\<close> replaces the one
  of minimal \<open>delta_d\<close> when the two smallest \<open>delta_d\<close> differ by less than 30.  The
  code sorts \<open>delta_d\<close> in descending order and compares its first two entries, the two
  largest.  On the sample event the three \<open>delta_d\<close> are about 4.6, 5.6 and 66.4: the two
  smallest differ by less than 30, the two largest by more, and the code returns the
  pairing of minimal \<open>delta_d\<close>, \<open>((0, 1), (2, 3))\<close>, although the pairing of largest
  centre-of-mass \<open>pt\<close> is the second one, \<open>((0, 2), (1, 3))\<close>.
\<close>

theorem dhh_tooclose_compares_two_largest:
  "\<exists>d jj dd.
     getJetAssignmentVars p4_ops [event0] ''dhh'' = Inr d \<and>
     map_of d ''ak4Pair0'' = Some (PairCol [(0, 1)]) \<and>
     map_of d ''ak4Pair1'' = Some (PairCol [(2, 3)]) \<and>
     JET_ASSIGNMENTS 4 = Some [((0, 1), (2, 3)), ((0, 2), (1, 3)), ((0, 3), (1, 2))] \<and>
     jj_event p4_ops [((0, 1), (2, 3)), ((0, 2), (1, 3)), ((0, 3), (1, 2))]
       (event_jets p4_ops event0) = Inr jj \<and>
     mjj_event p4_ops jj = [[64, 55], [21, 30], [28, 125]] \<and>
     sequence (map delta_d_row (mjj_event p4_ops jj)) = Inr dd \<and>
     argmin dd = Some 0 \<and>
     sort dd ! 1 - sort dd ! 0 < 30 \<and>
     30 \<le> sort dd ! 2 - sort dd ! 1 \<and>
     com_pt_event p4_ops jj = [96, 144, 0] \<and>
     argmax (com_pt_event p4_ops jj) = Some 1"
proof -
  let ?s = "sqrt (1 + dhh_k\<^sup>2)"
  let ?dd = "[(161 / 24) / ?s, (65 / 8) / ?s, (575 / 6) / ?s]"
  let ?jj = "[(\<lparr>px = 48, py = 0, pz = 0, E = 80\<rparr>, \<lparr>px = -48, py = 0, pz = 0, E = 73\<rparr>),
          (\<lparr>px = -72, py = 0, pz = 0, E = 75\<rparr>, \<lparr>px = 72, py = 0, pz = 0, E = 78\<rparr>),
          (\<lparr>px = 0, py = 0, pz = 0, E = 28\<rparr>, \<lparr>px = 0, py = 0, pz = 0, E = 125\<rparr>)]"
  note f = event0_dhh_facts
  have srt: "sort ?dd = ?dd" using f(1,2) by (rule sort3_ascending)
  have i: "argmin ?dd = Some 0" using f(1,2) by (intro argmin3_first) auto
  have res: "getJetAssignmentVars p4_ops [event0] ''dhh'' =
      Inr (jetAssignmentDict p4_ops [sort_by_dijet_pt p4_ops (event_jets p4_ops event0) ((0, 1), (2, 3))])"
    by (simp add: getJetAssignmentVars_dhh event0_dhh_event)
  have p: "map_of (jetAssignmentDict p4_ops
       [sort_by_dijet_pt p4_ops (event_jets p4_ops event0) ((0, 1), (2, 3))]) ''ak4Pair0'' = Some (PairCol [(0, 1)])"
     "map_of (jetAssignmentDict p4_ops
       [sort_by_dijet_pt p4_ops (event_jets p4_ops event0) ((0, 1), (2, 3))]) ''ak4Pair1'' = Some (PairCol [(2, 3)])"
    by (simp_all only: map_of_jetAssignmentDict list.map sort_by_dijet_pt_pairs fst_conv snd_conv)
  have ja: "JET_ASSIGNMENTS 4 = Some [((0, 1), (2, 3)), ((0, 2), (1, 3)), ((0, 3), (1, 2))]"
    using JET_ASSIGNMENTS_4 by (simp only: pairings4_def)
  have jj: "jj_event p4_ops [((0, 1), (2, 3)), ((0, 2), (1, 3)), ((0, 3), (1, 2))]
       (event_jets p4_ops event0) = Inr ?jj"
    using event0_jj by (simp only: pairings4_def)
  have dd: "sequence (map delta_d_row (mjj_event p4_ops ?jj)) = Inr ?dd"
    by (simp only: event0_mjj event0_delta_d)
  have a: "sort ?dd ! 1 - sort ?dd ! 0 < 30" "30 \<le> sort ?dd ! 2 - sort ?dd ! 1"
    using f(3,4) by (simp_all only: srt) simp_all
  have j: "argmax (com_pt_event p4_ops ?jj) = Some 1"
    by (simp only: event0_com_pt) (simp add: argmax_def)
  show ?thesis
    using res p ja jj event0_mjj dd i a event0_com_pt j by blast
qed


subsection \<open>The \<open>dhh\<close> output\<close>


lemma sqrt_sq1 [simp]:
  "sqrt 14400 = 120" "sqrt 10201 = 101" "sqrt 1521 = 39" "sqrt 255025 = 505"
  "sqrt 48400 = 220" "sqrt 65536 = 256" "sqrt 7056 = 84" "sqrt 250000 = 500" "sqrt 12544 = 112"
  "sqrt 36864 = 192" "sqrt 82944 = 288" "sqrt 230400 = 480" "sqrt (16 / 25) = 4 / 5"
  using real_sqrt_unique[of 120 14400] real_sqrt_unique[of 101 10201] real_sqrt_unique[of 39 1521]
   real_sqrt_unique[of 505 255025] real_sqrt_unique[of 220 48400] real_sqrt_unique[of 256 65536]
   real_sqrt_unique[of 84 7056] real_sqrt_unique[of 500 250000] real_sqrt_unique[of 112 12544]
   real_sqrt_unique[of 192 36864] real_sqrt_unique[of 288 82944] real_sqrt_unique[of 480 230400]
   real_sqrt_unique[of "4 / 5" "16 / 25"]
  by (simp_all add: power2_eq_square)

lemma event1_jets:
  "event_jets p4_ops event1 =
     [\<lparr>px = -120, py = 0, pz = 0, E = 120\<rparr>, \<lparr>px = 99, py = 0, pz = 0, E = 101\<rparr>,
      \<lparr>px = -15, py = 0, pz = 0, E = 39\<rparr>, \<lparr>px = 495, py = 0, pz = 0, E = 505\<rparr>,
      \<lparr>px = 10, py = 0, pz = 0, E = 10\<rparr>, \<lparr>px = 10, py = 0, pz = 0, E = 10\<rparr>]"
  by (simp add: event_jets_def event1_def jet_def p4_ops_def p4_make_def)

lemma event1_jj:
  "jj_event p4_ops pairings4 (event_jets p4_ops event1) =
     Inr [(\<lparr>px = -21, py = 0, pz = 0, E = 221\<rparr>, \<lparr>px = 480, py = 0, pz = 0, E = 544\<rparr>),
          (\<lparr>px = -135, py = 0, pz = 0, E = 159\<rparr>, \<lparr>px = 594, py = 0, pz = 0, E = 606\<rparr>),
          (\<lparr>px = 375, py = 0, pz = 0, E = 625\<rparr>, \<lparr>px = 84, py = 0, pz = 0, E = 140\<rparr>)]"
  unfolding event1_jets
  by (simp add: jj_event_def pairings4_def pairing_in_range_def pair_dijet_def p4_ops_def p4_add_def)

lemma event1_mjj:
  "mjj_event p4_ops
     [(\<lparr>px = -21, py = 0, pz = 0, E = 221\<rparr>, \<lparr>px = 480, py = 0, pz = 0, E = 544\<rparr>),
          (\<lparr>px = -135, py = 0, pz = 0, E = 159\<rparr>, \<lparr>px = 594, py = 0, pz = 0, E = 606\<rparr>),
          (\<lparr>px = 375, py = 0, pz = 0, E = 625\<rparr>, \<lparr>px = 84, py = 0, pz = 0, E = 140\<rparr>)]
    = [[220, 256], [84, 120], [500, 112]]"
  by (simp add: mjj_event_def p4_ops_def p4_M_def)

lemma event1_com_pt:
  "com_pt_event p4_ops
     [(\<lparr>px = -21, py = 0, pz = 0, E = 221\<rparr>, \<lparr>px = 480, py = 0, pz = 0, E = 544\<rparr>),
          (\<lparr>px = -135, py = 0, pz = 0, E = 159\<rparr>, \<lparr>px = 594, py = 0, pz = 0, E = 606\<rparr>),
          (\<lparr>px = 375, py = 0, pz = 0, E = 625\<rparr>, \<lparr>px = 84, py = 0, pz = 0, E = 140\<rparr>)]
    = [384, 576, 0]"
  by (simp add: com_pt_event_def p4_ops_def p4_boostCM_of_def p4_add_def p4_pt_def Let_def
      power2_eq_square)

lemma event1_delta_d:
  "sequence (map delta_d_row [[220, 256], [84, 120], [500, 112]]) =
     Inr [(161 / 6) / sqrt (1 + dhh_k\<^sup>2), (65 / 2) / sqrt (1 + dhh_k\<^sup>2),
          (1150 / 3) / sqrt (1 + dhh_k\<^sup>2)]"
proof -
  have "\<bar>max 220 256 - dhh_k * min 220 256\<bar> = (161 / 6 :: real)"
       "\<bar>max 84 120 - dhh_k * min 84 120\<bar> = (65 / 2 :: real)"
       "\<bar>max 500 112 - dhh_k * min 500 112\<bar> = (1150 / 3 :: real)"
    by (simp_all add: dhh_k_def)
  then show ?thesis by (simp only: sequence_delta_d_three)
qed

lemma event1_dhh_facts_gen:
  fixes s :: real
  assumes "1 < s" "s < 2"
  shows "(161 / 6) / s \<le> (65 / 2) / s" "(65 / 2) / s \<le> (1150 / 3) / s"
    "30 \<le> (1150 / 3) / s - (65 / 2) / s"
  using assms by (simp_all add: field_simps)

lemma event1_dhh_index:
  "dhh_index [[220, 256], [84, 120], [500, 112]] [384, 576, 0] = Inr 0"
proof -
  let ?s = "sqrt (1 + dhh_k\<^sup>2)"
  let ?dd = "[(161 / 6) / ?s, (65 / 2) / ?s, (1150 / 3) / ?s]"
  note f = event1_dhh_facts_gen[OF dhh_norm_bounds]
  have srt: "sort ?dd = ?dd" using f(1,2) by (rule sort3_ascending)
  have r: "rev (sort ?dd) = (1150 / 3) / ?s # (65 / 2) / ?s # [(161 / 6) / ?s]"
    by (simp only: srt) simp
  have i: "argmin ?dd = Some 0" using f(1,2) by (intro argmin3_first) auto
  have j: "argmax [384, 576, 0] = Some 1" by (simp add: argmax_def)
  from dhh_index_eq[OF event1_delta_d i j r] f(3) show ?thesis by simp
qed




lemma pairings4_cover: "\<forall>pq\<in>set pairings4. disjoint_cover (fst pq) (snd pq)"
  by (auto simp: pairings4_def disjoint_cover_def)

lemma pairings4_distinct:
  "distinct pairings4"
  "distinct (map (\<lambda>pq. {{fst (fst pq), snd (fst pq)}, {fst (snd pq), snd (snd pq)}}) pairings4)"
  by (auto simp: pairings4_def doubleton_eq_iff)

lemma table_row_mem: "table_row ja index = Inr pq \<Longrightarrow> pq \<in> set ja"
  by (auto simp: table_row_def split: if_splits)

lemma chi2_event_mem: "chi2_event ops ja row = Inr pq \<Longrightarrow> pq \<in> set ja"
  by (auto simp: chi2_event_def dest: table_row_mem split: sum.splits)

lemma dhh_event_mem:
  "dhh_event ops ja row = Inr ev \<Longrightarrow> (first_bb_pair ev, second_bb_pair ev) \<in> set ja"
  by (auto simp: dhh_event_def Let_def sort_by_dijet_pt_pairs dest: table_row_mem split: sum.splits)

subsection \<open>The lookup table\<close>

text \<open>
  Claim C4.  \<open>JET_ASSIGNMENTS[4]\<close> holds exactly 3 pairings, distinct as lists and as
  partitions; in every entry the two index pairs are disjoint and together cover the jet
  indices 0 to 3.  Consequently every entry of the index-pair columns returned by either
  pairing method consists of two disjoint pairs covering exactly these 4 indices.
\<close>

theorem jet_assignments_partition:
  "(\<exists>ja. JET_ASSIGNMENTS 4 = Some ja \<and> length ja = 3 \<and> distinct ja \<and>
         distinct (map (\<lambda>pq. {{fst (fst pq), snd (fst pq)}, {fst (snd pq), snd (snd pq)}}) ja) \<and>
         (\<forall>pq\<in>set ja. disjoint_cover (fst pq) (snd pq))) \<and>
   (\<forall>d p0 p1 e.
      getJetAssignmentVars ops ak4JetVars ''chi2'' = Inr d \<and>
      map_of d ''ak4Pair0chi2'' = Some (PairCol p0) \<and>
      map_of d ''ak4Pair1chi2'' = Some (PairCol p1) \<and> e < length ak4JetVars \<longrightarrow>
      e < length p0 \<and> e < length p1 \<and> disjoint_cover (p0 ! e) (p1 ! e)) \<and>
   (\<forall>d p0 p1 e.
      getJetAssignmentVars ops ak4JetVars ''dhh'' = Inr d \<and>
      map_of d ''ak4Pair0'' = Some (PairCol p0) \<and>
      map_of d ''ak4Pair1'' = Some (PairCol p1) \<and> e < length ak4JetVars \<longrightarrow>
      e < length p0 \<and> e < length p1 \<and> disjoint_cover (p0 ! e) (p1 ! e))"
proof (intro conjI allI impI)
  show "\<exists>ja. JET_ASSIGNMENTS 4 = Some ja \<and> length ja = 3 \<and> distinct ja \<and>
         distinct (map (\<lambda>pq. {{fst (fst pq), snd (fst pq)}, {fst (snd pq), snd (snd pq)}}) ja) \<and>
         (\<forall>pq\<in>set ja. disjoint_cover (fst pq) (snd pq))"
    using JET_ASSIGNMENTS_4 length_pairings4 pairings4_distinct pairings4_cover by blast
next
  fix d p0 p1 e
  assume a: "getJetAssignmentVars ops ak4JetVars ''chi2'' = Inr d \<and>
      map_of d ''ak4Pair0chi2'' = Some (PairCol p0) \<and>
      map_of d ''ak4Pair1chi2'' = Some (PairCol p1) \<and> e < length ak4JetVars"
  then obtain chosen where ch: "sequence (map (chi2_event ops pairings4) ak4JetVars) = Inr chosen"
    and d: "d = [(''ak4Pair0chi2'', PairCol (map fst chosen)), (''ak4Pair1chi2'', PairCol (map snd chosen))]"
    by (auto simp: getJetAssignmentVars_chi2 split: sum.splits)
  from a d have p: "p0 = map fst chosen" "p1 = map snd chosen" by auto
  from sequence_map_Inr[OF ch] a have len: "e < length chosen"
    and ev: "chi2_event ops pairings4 (ak4JetVars ! e) = Inr (chosen ! e)" by auto
  from chi2_event_mem[OF ev] pairings4_cover
  have "disjoint_cover (fst (chosen ! e)) (snd (chosen ! e))" by blast
  then have r: "e < length p0 \<and> e < length p1 \<and> disjoint_cover (p0 ! e) (p1 ! e)"
    using len p by simp
  from r show "e < length p0" by simp
  from r show "e < length p1" by simp
  from r show "disjoint_cover (p0 ! e) (p1 ! e)" by simp
next
  fix d p0 p1 e
  assume a: "getJetAssignmentVars ops ak4JetVars ''dhh'' = Inr d \<and>
      map_of d ''ak4Pair0'' = Some (PairCol p0) \<and>
      map_of d ''ak4Pair1'' = Some (PairCol p1) \<and> e < length ak4JetVars"
  then obtain evs where ch: "sequence (map (dhh_event ops pairings4) ak4JetVars) = Inr evs"
    and d: "d = jetAssignmentDict ops evs"
    by (auto simp: getJetAssignmentVars_dhh split: sum.splits)
  from a d have p: "p0 = map first_bb_pair evs" "p1 = map second_bb_pair evs"
    by (simp_all add: map_of_jetAssignmentDict)
  from sequence_map_Inr[OF ch] a have len: "e < length evs"
    and ev: "dhh_event ops pairings4 (ak4JetVars ! e) = Inr (evs ! e)" by auto
  from dhh_event_mem[OF ev] pairings4_cover
  have "disjoint_cover (first_bb_pair (evs ! e)) (second_bb_pair (evs ! e))" by force
  then have r: "e < length p0 \<and> e < length p1 \<and> disjoint_cover (p0 ! e) (p1 ! e)"
    using len p by simp
  from r show "e < length p0" by simp
  from r show "e < length p1" by simp
  from r show "disjoint_cover (p0 ! e) (p1 ! e)" by simp
qed

lemma event0_chi2_event: "chi2_event p4_ops pairings4 event0 = Inr ((0, 1), (2, 3))"
proof -
  have i: "argmin (map chi2_row (mjj_event p4_ops
      [(\<lparr>px = 48, py = 0, pz = 0, E = 80\<rparr>, \<lparr>px = -48, py = 0, pz = 0, E = 73\<rparr>),
          (\<lparr>px = -72, py = 0, pz = 0, E = 75\<rparr>, \<lparr>px = 72, py = 0, pz = 0, E = 78\<rparr>),
          (\<lparr>px = 0, py = 0, pz = 0, E = 28\<rparr>, \<lparr>px = 0, py = 0, pz = 0, E = 125\<rparr>)])) = Some 0"
    by (simp only: event0_mjj) (simp add: chi2_row_def HIGGS_MASS_def argmin_def)
  from chi2_event_eq[OF event0_jj i] show ?thesis by (simp add: pairings4_def)
qed

text \<open>The table itself, and the pairs returned on the two sample events.\<close>

theorem jet_assignments_partition_witness:
  "JET_ASSIGNMENTS 4 = Some [((0, 1), (2, 3)), ((0, 2), (1, 3)), ((0, 3), (1, 2))] \<and>
   getJetAssignmentVars p4_ops [event0] ''chi2'' =
     Inr [(''ak4Pair0chi2'', PairCol [(0, 1)]), (''ak4Pair1chi2'', PairCol [(2, 3)])] \<and>
   disjoint_cover (0, 1) (2, 3) \<and>
   (\<exists>d. getJetAssignmentVars p4_ops [event1] ''dhh'' = Inr d \<and>
        map_of d ''ak4Pair0'' = Some (PairCol [(0, 1)]) \<and>
        map_of d ''ak4Pair1'' = Some (PairCol [(2, 3)]))"
proof -
  have ja: "JET_ASSIGNMENTS 4 = Some [((0, 1), (2, 3)), ((0, 2), (1, 3)), ((0, 3), (1, 2))]"
    using JET_ASSIGNMENTS_4 by (simp only: pairings4_def)
  have res: "getJetAssignmentVars p4_ops [event0] ''chi2'' =
     Inr [(''ak4Pair0chi2'', PairCol [(0, 1)]), (''ak4Pair1chi2'', PairCol [(2, 3)])]"
    by (simp add: getJetAssignmentVars_chi2 event0_chi2_event)
  note T = jet_assignments_partition[of p4_ops "[event0]", THEN conjunct2, THEN conjunct1, rule_format]
  have "disjoint_cover ([(0, 1)] ! 0) ([(2, 3)] ! 0)"
    by (rule T[of "[(''ak4Pair0chi2'', PairCol [(0, 1)]), (''ak4Pair1chi2'', PairCol [(2, 3)])]"
            "[(0, 1)]" "[(2, 3)]" 0, THEN conjunct2, THEN conjunct2]) (simp add: res)
  then have dc: "disjoint_cover (0, 1) (2, 3)" by simp
  have "\<exists>d. getJetAssignmentVars p4_ops [event1] ''dhh'' = Inr d \<and>
        map_of d ''ak4Pair0'' = Some (PairCol [(0, 1)]) \<and>
        map_of d ''ak4Pair1'' = Some (PairCol [(2, 3)])"
  proof -
    have idx: "dhh_index (mjj_event p4_ops
     [(\<lparr>px = -21, py = 0, pz = 0, E = 221\<rparr>, \<lparr>px = 480, py = 0, pz = 0, E = 544\<rparr>),
          (\<lparr>px = -135, py = 0, pz = 0, E = 159\<rparr>, \<lparr>px = 594, py = 0, pz = 0, E = 606\<rparr>),
          (\<lparr>px = 375, py = 0, pz = 0, E = 625\<rparr>, \<lparr>px = 84, py = 0, pz = 0, E = 140\<rparr>)])
     (com_pt_event p4_ops
     [(\<lparr>px = -21, py = 0, pz = 0, E = 221\<rparr>, \<lparr>px = 480, py = 0, pz = 0, E = 544\<rparr>),
          (\<lparr>px = -135, py = 0, pz = 0, E = 159\<rparr>, \<lparr>px = 594, py = 0, pz = 0, E = 606\<rparr>),
          (\<lparr>px = 375, py = 0, pz = 0, E = 625\<rparr>, \<lparr>px = 84, py = 0, pz = 0, E = 140\<rparr>)]) = Inr 0"
      by (simp only: event1_mjj event1_com_pt event1_dhh_index)
    from dhh_event_eq[OF event1_jj idx]
    have "dhh_event p4_ops pairings4 event1 =
        Inr (sort_by_dijet_pt p4_ops (event_jets p4_ops event1) ((0, 1), (2, 3)))"
      by (simp add: pairings4_def)
    then have "getJetAssignmentVars p4_ops [event1] ''dhh'' =
      Inr (jetAssignmentDict p4_ops [sort_by_dijet_pt p4_ops (event_jets p4_ops event1) ((0, 1), (2, 3))])"
      by (simp add: getJetAssignmentVars_dhh)
    moreover have "map_of (jetAssignmentDict p4_ops
         [sort_by_dijet_pt p4_ops (event_jets p4_ops event1) ((0, 1), (2, 3))]) ''ak4Pair0'' =
           Some (PairCol [(0, 1)])"
      "map_of (jetAssignmentDict p4_ops
         [sort_by_dijet_pt p4_ops (event_jets p4_ops event1) ((0, 1), (2, 3))]) ''ak4Pair1'' =
           Some (PairCol [(2, 3)])"
      by (simp_all only: map_of_jetAssignmentDict list.map sort_by_dijet_pt_pairs fst_conv snd_conv)
    ultimately show ?thesis by blast
  qed
  with ja res dc show ?thesis by blast
qed

subsection \<open>Object selection\<close>





text \<open>
  Claim C2 says that \<open>good_muons\<close> keeps the muons with \<open>|eta| \<le> 2.4\<close>.  The code
  compares the signed pseudorapidity, \<open>muons.eta <= selection["eta"]\<close>, where the jet
  selections of the same module take \<open>abs(jets.eta)\<close>: of two tight, isolated muons of
  \<open>pt\<close> 50 at \<open>eta = -3\<close> and \<open>eta = 3\<close> it removes the forward one and keeps the
  backward one, whose \<open>|eta|\<close> is 3.
\<close>

theorem good_muons_keeps_backward_muon:
  "good_muons [[muon_backward, muon_forward]] muon_selection = Inr [[muon_backward]] \<and>
   \<bar>muon_eta muon_backward\<bar> = 3"
  by (simp add: good_muons_def apply_mask_def flag_field_def muon_selection_def
      muon_backward_def muon_forward_def)


lemma ratio_unit:
  fixes a b :: real
  assumes "0 \<le> a" "0 \<le> b" "a + b \<noteq> 0"
  shows "0 \<le> a / (a + b)" "a / (a + b) \<le> 1"
proof -
  have pos: "0 < a + b" using assms by linarith
  show "0 \<le> a / (a + b)" using assms(1) pos by simp
  show "a / (a + b) \<le> 1" using assms(2) pos by (simp add: divide_le_eq)
qed




subsection \<open>BDT scores\<close>

text \<open>
  Claim C3 says that for every matrix of predicted probabilities the renormalised score
  lies in \<open>[0, 1]\<close>.  A row that puts all probability on the first of two signal
  classes leaves the second signal with the score \<open>0 / (0 + 0)\<close>, which numpy evaluates to
  \<open>nan\<close>: no number in \<open>[0, 1]\<close>.
\<close>

theorem get_bdt_scores_zero_denominator:
  "get_bdt_scores [[1, 0, 0]] [''hh4b'', ''vbfhh4b''] True = [[Some 1, None]] \<and>
   \<not> (\<exists>s. get_bdt_scores [[1, 0, 0]] [''hh4b'', ''vbfhh4b''] True ! 0 ! 1 = Some s \<and> 0 \<le> s \<and> s \<le> 1)"
  by (simp add: get_bdt_scores_def np_divide_def)

lemma sum_list_nonneg_real: "(\<forall>p\<in>set ps. (0::real) \<le> p) \<Longrightarrow> 0 \<le> sum_list ps"
  by (induction ps) auto

text \<open>
  Claim C3, amended.  When \<open>multiclass\<close> is false the result is the second column of a
  two-column matrix, unchanged; when it is true with exactly one signal key, the first
  column of a matrix with non-empty rows, unchanged; when it is true with another number
  of signal keys, the score of the \<open>i\<close>-th signal in a row of non-negative entries is
  \<open>p\<^sub>i / (p\<^sub>i + sum of the background-class probabilities)\<close> and lies in \<open>[0, 1]\<close>,
  provided this denominator is not zero.
\<close>

theorem get_bdt_scores_cases:
  "(\<not> multiclass \<and> (\<forall>row\<in>set preds. length row = 2) \<longrightarrow>
      get_bdt_scores preds sig_keys multiclass = map (\<lambda>row. [Some (row ! 1)]) preds) \<and>
   (multiclass \<and> length sig_keys = 1 \<and> (\<forall>row\<in>set preds. row \<noteq> []) \<longrightarrow>
      get_bdt_scores preds sig_keys multiclass = map (\<lambda>row. [Some (row ! 0)]) preds) \<and>
   (multiclass \<and> length sig_keys \<noteq> 1 \<longrightarrow>
      length (get_bdt_scores preds sig_keys multiclass) = length preds \<and>
      (\<forall>e<length preds. \<forall>i<length sig_keys.
         i < length (preds ! e) \<and> (\<forall>p\<in>set (preds ! e). 0 \<le> p) \<and>
         preds ! e ! i + sum_list (drop (length sig_keys) (preds ! e)) \<noteq> 0 \<longrightarrow>
         i < length (get_bdt_scores preds sig_keys multiclass ! e) \<and>
         get_bdt_scores preds sig_keys multiclass ! e ! i =
           Some (preds ! e ! i / (preds ! e ! i + sum_list (drop (length sig_keys) (preds ! e)))) \<and>
         0 \<le> preds ! e ! i / (preds ! e ! i + sum_list (drop (length sig_keys) (preds ! e))) \<and>
         preds ! e ! i / (preds ! e ! i + sum_list (drop (length sig_keys) (preds ! e))) \<le> 1))"
proof (intro conjI impI)
  assume a: "\<not> multiclass \<and> (\<forall>row\<in>set preds. length row = 2)"
  have "map Some (drop 1 row) = [Some (row ! 1)]" if "length row = 2" for row :: "real list"
  proof -
    from that obtain x y where "row = [x, y]"
      by (cases row; cases "tl row") auto
    then show ?thesis by simp
  qed
  then show "get_bdt_scores preds sig_keys multiclass = map (\<lambda>row. [Some (row ! 1)]) preds"
    using a by (simp add: get_bdt_scores_def)
next
  assume a: "multiclass \<and> length sig_keys = 1 \<and> (\<forall>row\<in>set preds. row \<noteq> [])"
  have "map Some (take 1 row) = [Some (row ! 0)]" if "row \<noteq> []" for row :: "real list"
    using that by (cases row) auto
  then show "get_bdt_scores preds sig_keys multiclass = map (\<lambda>row. [Some (row ! 0)]) preds"
    using a by (simp add: get_bdt_scores_def)
next
  assume a: "multiclass \<and> length sig_keys \<noteq> 1"
  show "length (get_bdt_scores preds sig_keys multiclass) = length preds"
    by (simp add: get_bdt_scores_def)
  show "\<forall>e<length preds. \<forall>i<length sig_keys.
         i < length (preds ! e) \<and> (\<forall>p\<in>set (preds ! e). 0 \<le> p) \<and>
         preds ! e ! i + sum_list (drop (length sig_keys) (preds ! e)) \<noteq> 0 \<longrightarrow>
         i < length (get_bdt_scores preds sig_keys multiclass ! e) \<and>
         get_bdt_scores preds sig_keys multiclass ! e ! i =
           Some (preds ! e ! i / (preds ! e ! i + sum_list (drop (length sig_keys) (preds ! e)))) \<and>
         0 \<le> preds ! e ! i / (preds ! e ! i + sum_list (drop (length sig_keys) (preds ! e))) \<and>
         preds ! e ! i / (preds ! e ! i + sum_list (drop (length sig_keys) (preds ! e))) \<le> 1"
  proof (intro allI impI)
    fix e i
    assume e: "e < length preds" and i: "i < length sig_keys"
      and h: "i < length (preds ! e) \<and> (\<forall>p\<in>set (preds ! e). 0 \<le> p) \<and>
         preds ! e ! i + sum_list (drop (length sig_keys) (preds ! e)) \<noteq> 0"
    let ?row = "preds ! e"
    let ?bg = "sum_list (drop (length sig_keys) ?row)"
    have bg: "0 \<le> ?bg"
      using h by (intro sum_list_nonneg_real) (auto dest: in_set_dropD)
    have p: "0 \<le> ?row ! i" using h by simp
    have res: "get_bdt_scores preds sig_keys multiclass ! e =
        map (\<lambda>p. np_divide p (p + ?bg)) (take (length sig_keys) ?row)"
      using a e by (simp add: get_bdt_scores_def Let_def)
    have "i < length (get_bdt_scores preds sig_keys multiclass ! e)"
      using i h by (simp add: res)
    moreover have "get_bdt_scores preds sig_keys multiclass ! e ! i = Some (?row ! i / (?row ! i + ?bg))"
      using i h by (simp add: res np_divide_def)
    moreover have "0 \<le> ?row ! i / (?row ! i + ?bg)" "?row ! i / (?row ! i + ?bg) \<le> 1"
      using ratio_unit[OF p bg] h by simp_all
    ultimately show "i < length (get_bdt_scores preds sig_keys multiclass ! e) \<and>
         get_bdt_scores preds sig_keys multiclass ! e ! i =
           Some (preds ! e ! i / (preds ! e ! i + sum_list (drop (length sig_keys) (preds ! e)))) \<and>
         0 \<le> preds ! e ! i / (preds ! e ! i + sum_list (drop (length sig_keys) (preds ! e))) \<and>
         preds ! e ! i / (preds ! e ! i + sum_list (drop (length sig_keys) (preds ! e))) \<le> 1"
      by blast
  qed
qed

text \<open>One matrix for each of the three cases.\<close>

theorem get_bdt_scores_cases_witness:
  "get_bdt_scores [[0.3, 0.7]] [''hh4b''] False = [[Some 0.7]] \<and>
   get_bdt_scores [[0.5, 0.3, 0.2]] [''hh4b''] True = [[Some 0.5]] \<and>
   get_bdt_scores [[0.5, 0.3, 0.1, 0.1]] [''hh4b'', ''vbfhh4b''] True ! 0 ! 1 = Some (0.3 / (0.3 + 0.2)) \<and>
   (0::real) \<le> 0.3 / (0.3 + 0.2) \<and> (0.3::real) / (0.3 + 0.2) \<le> 1"
proof -
  note t1 = get_bdt_scores_cases[where multiclass = False and preds = "[[0.3, 0.7]]"
      and sig_keys = "[''hh4b'']", THEN conjunct1, rule_format]
  note t2 = get_bdt_scores_cases[where multiclass = True and preds = "[[0.5, 0.3, 0.2]]"
      and sig_keys = "[''hh4b'']",
      THEN conjunct2, THEN conjunct1, rule_format]
  note t3 = get_bdt_scores_cases[where multiclass = True and preds = "[[0.5, 0.3, 0.1, 0.1]]"
      and sig_keys = "[''hh4b'', ''vbfhh4b'']",
      THEN conjunct2, THEN conjunct2, rule_format, THEN conjunct2, rule_format, of 0 1]
  have a: "get_bdt_scores [[0.3, 0.7]] [''hh4b''] False = [[Some 0.7]]"
    using t1 by simp
  have b: "get_bdt_scores [[0.5, 0.3, 0.2]] [''hh4b''] True = [[Some 0.5]]"
    using t2 by simp
  have c: "get_bdt_scores [[0.5, 0.3, 0.1, 0.1]] [''hh4b'', ''vbfhh4b''] True ! 0 ! 1 = Some (0.3 / (0.3 + 0.2)) \<and>
   (0::real) \<le> 0.3 / (0.3 + 0.2) \<and> (0.3::real) / (0.3 + 0.2) \<le> 1"
    using t3 by simp
  show ?thesis using a b c by blast
qed

subsection \<open>Equalized weights\<close>





lemma floor_negative_abs: "floor_negative (map abs ws) = map abs ws"
  by (simp add: floor_negative_def)













lemma sample_weights_totals:
  "abs_total sample_weights ''hh4b'' = 10" "abs_total sample_weights ''vbfhh4b'' = 30"
  "sum_list (map (abs_total sample_weights) [''qcd'', ''ttbar'']) = 80"
  by (simp_all add: abs_total_def sample_weights_def)


subsection \<open>The fileset\<close>
























subsection \<open>Generator weights and gen-level dispatch\<close>






end
